theory Spec2Isabelle
  imports Complex_Main
begin

section \<open>Hummingbird backtest runner (tools/backtest\_runner.py)\<close>

text \<open>
  Python floats are read as real numbers: the rounding of single additions and
  multiplications is idealised, every other step of the code is kept. The calls
  \<open>round(x, n)\<close> of the report are modelled by \<open>py_round\<close>, rounding half to even
  as Python does. Time stamps are reals counted in milliseconds, so that adding
  \<open>pd.Timedelta(milliseconds=latency_ms)\<close> is an addition.

  \<open>compute_metrics\<close> works on a pandas Series of float64 values, where a division by
  zero yields an infinity or NaN instead of raising. Its values are modelled by the type
  \<open>float64\<close> below.
\<close>

subsection \<open>Data\<close>

datatype py_error = KeyError string | IndexError

text \<open>One row of the frame read by \<open>pd.read_csv\<close>.\<close>

record bar =
  timestamp :: real
  open_px :: real
  high :: real
  low :: real
  close :: real
  volume :: real

text \<open>
  A trade dict as a strategy yields it: \<open>{'time', 'side', 'price', 'size'}\<close>. Any key
  may be missing (\<open>None\<close>), and the side may be any string.
\<close>

record intent =
  time :: "real option"
  side :: "string option"
  price :: "real option"
  size_v :: "real option"

text \<open>An executed trade is the dict \<open>{**trade, 'exec_time': ..., 'exec_price': ...}\<close>.\<close>

record trade = intent +
  exec_time :: real
  exec_price :: real

record ledger =
  cash :: real
  position :: real
  trades :: "trade list"

datatype rval = Num real | Count nat | Trades "trade list"

type_synonym result = "(string \<times> rval) list"

subsection \<open>Rounding for the report\<close>

definition py_round :: "real \<Rightarrow> nat \<Rightarrow> real" where
  "py_round x n =
     (let s = x * 10 ^ n;
          f = \<lfloor>s\<rfloor>;
          d = s - of_int f
      in (if d < 1 / 2 then of_int f
          else if 1 / 2 < d then of_int (f + 1)
          else if even f then of_int f
          else of_int (f + 1)) / 10 ^ n)"

subsection \<open>The loop over the strategy's trades\<close>

definition executed :: "intent \<Rightarrow> real \<Rightarrow> real \<Rightarrow> trade" where
  "executed tr et ep = intent.extend tr \<lparr>exec_time = et, exec_price = ep\<rparr>"

text \<open>
  The values read from a trade dict at lines 56, 57, 61 and 62: \<open>trade.get\<close> puts 0
  for a missing price and 1 for a missing size.
\<close>

definition price_of :: "'a intent_scheme \<Rightarrow> real" where
  "price_of tr = (case price tr of None \<Rightarrow> 0 | Some p \<Rightarrow> p)"

definition size_of :: "'a intent_scheme \<Rightarrow> real" where
  "size_of tr = (case size_v tr of None \<Rightarrow> 1 | Some s \<Rightarrow> s)"

definition slip_of :: "real \<Rightarrow> 'a intent_scheme \<Rightarrow> real" where
  "slip_of slippage_bps tr = price_of tr * (slippage_bps / 10000)"

definition exec_price_of :: "real \<Rightarrow> 'a intent_scheme \<Rightarrow> real" where
  "exec_price_of slippage_bps tr =
     (if side tr = Some ''buy'' then price_of tr + slip_of slippage_bps tr
      else price_of tr - slip_of slippage_bps tr)"

text \<open>
  One pass of the body of \<open>for trade in strategy_fn(df)\<close> (lines 55 to 82). The only
  statement that can raise is \<open>trade['time']\<close>; \<open>trade.get\<close> never does.
\<close>

definition step :: "real \<Rightarrow> real \<Rightarrow> ledger \<Rightarrow> intent \<Rightarrow> py_error + ledger" where
  "step latency_ms slippage_bps L tr =
     (case time tr of
        None \<Rightarrow> Inl (KeyError ''time'')
      | Some t \<Rightarrow>
          (let et = t + latency_ms;
               ep = exec_price_of slippage_bps tr
           in if side tr = Some ''buy'' then
                (let cost = ep * size_of tr
                 in if cash L \<ge> cost then
                      Inr (L\<lparr>cash := cash L - cost,
                             position := position L + size_of tr,
                             trades := trades L @ [executed tr et ep]\<rparr>)
                    else Inr L)
              else if side tr = Some ''sell'' then
                (if position L \<ge> size_of tr then
                   Inr (L\<lparr>cash := cash L + ep * size_of tr,
                          position := position L - size_of tr,
                          trades := trades L @ [executed tr et ep]\<rparr>)
                 else Inr L)
              else Inr L))"

fun run_loop :: "real \<Rightarrow> real \<Rightarrow> ledger \<Rightarrow> intent list \<Rightarrow> py_error + ledger" where
  "run_loop latency_ms slippage_bps L [] = Inr L"
| "run_loop latency_ms slippage_bps L (tr # rest) =
     (case step latency_ms slippage_bps L tr of
        Inl e \<Rightarrow> Inl e
      | Inr L' \<Rightarrow> run_loop latency_ms slippage_bps L' rest)"

subsection \<open>The report\<close>

text \<open>
  The list comprehension of lines 89 to 92. \<open>t['price']\<close> is read only for a sell (the
  \<open>and\<close> short-circuits) and raises when the strategy's dict had no price.
\<close>

fun win_trades :: "trade list \<Rightarrow> py_error + trade list" where
  "win_trades [] = Inr []"
| "win_trades (t # ts) =
     (if side t = Some ''sell'' then
        (case price t of
           None \<Rightarrow> Inl (KeyError ''price'')
         | Some p \<Rightarrow>
             (case win_trades ts of
                Inl e \<Rightarrow> Inl e
              | Inr ws \<Rightarrow> Inr (if p < exec_price t then t # ws else ws)))
      else win_trades ts)"

definition sort_values :: "bar list \<Rightarrow> bar list" where
  "sort_values data = sort_key timestamp data"

definition init_ledger :: "real \<Rightarrow> ledger" where
  "init_ledger starting_cash = \<lparr>cash = starting_cash, position = 0, trades = []\<rparr>"

text \<open>
  \<open>run_backtest\<close> from the rows of the CSV file on. The strategy is a function from the
  sorted frame to the finite list of dicts its generator yields. \<open>df['close'].iloc[-1]\<close>
  raises IndexError on a frame without rows, after the loop has run.
\<close>

definition run_backtest ::
  "(bar list \<Rightarrow> intent list) \<Rightarrow> bar list \<Rightarrow> real \<Rightarrow> real \<Rightarrow> real \<Rightarrow> py_error + result" where
  "run_backtest strategy_fn data latency_ms starting_cash slippage_bps =
     (let df = sort_values data
      in case run_loop latency_ms slippage_bps (init_ledger starting_cash) (strategy_fn df) of
           Inl e \<Rightarrow> Inl e
         | Inr L \<Rightarrow>
             if df = [] then Inl IndexError
             else
               (let last_price = close (last df);
                    equity = cash L + position L * last_price;
                    pnl = equity - starting_cash;
                    total_trades = length (trades L)
                in case win_trades (trades L) of
                     Inl e \<Rightarrow> Inl e
                   | Inr ws \<Rightarrow>
                       (let win_rate =
                              (if 2 \<le> total_trades
                               then real (length ws) / (real total_trades / 2) * 100
                               else 0)
                        in Inr [(''pnl'', Num (py_round pnl 2)),
                                (''final_equity'', Num (py_round equity 2)),
                                (''cash'', Num (py_round (cash L) 2)),
                                (''position'', Num (py_round (position L) 4)),
                                (''total_trades'', Count total_trades),
                                (''win_rate'', Num (py_round win_rate 2)),
                                (''trades'', Trades (trades L))])))"

text \<open>
  The dict returned at lines 95 to 103, as a function of the final ledger, the last close
  and the winning trades; \<open>run_backtest\<close> returns it when nothing has raised (lemma
  \<open>run_backtest_Inr\<close>).
\<close>

definition report :: "real \<Rightarrow> real \<Rightarrow> ledger \<Rightarrow> trade list \<Rightarrow> result" where
  "report starting_cash last_price L ws =
     [(''pnl'', Num (py_round (cash L + position L * last_price - starting_cash) 2)),
      (''final_equity'', Num (py_round (cash L + position L * last_price) 2)),
      (''cash'', Num (py_round (cash L) 2)),
      (''position'', Num (py_round (position L) 4)),
      (''total_trades'', Count (length (trades L))),
      (''win_rate'', Num (py_round
          (if 2 \<le> length (trades L)
           then real (length ws) / (real (length (trades L)) / 2) * 100 else 0) 2)),
      (''trades'', Trades (trades L))]"

section \<open>Sharpe ratio and drawdown (\<open>compute_metrics\<close>)\<close>

subsection \<open>float64 values of a pandas Series\<close>

text \<open>
  A float64 is a finite number, an infinity or NaN. The operations follow IEEE 754 where
  a result is not finite; rounding, overflow and the sign of zero are idealised (\<open>Fin 0\<close>
  is the positive zero, and no operand of a division below is a negative zero when the
  curve holds none).
\<close>

datatype float64 = Fin real | PosInf | NegInf | NaN

fun fneg :: "float64 \<Rightarrow> float64" where
  "fneg (Fin a) = Fin (- a)"
| "fneg PosInf = NegInf"
| "fneg NegInf = PosInf"
| "fneg NaN = NaN"

fun fadd :: "float64 \<Rightarrow> float64 \<Rightarrow> float64" where
  "fadd (Fin a) (Fin b) = Fin (a + b)"
| "fadd NaN _ = NaN"
| "fadd _ NaN = NaN"
| "fadd PosInf NegInf = NaN"
| "fadd NegInf PosInf = NaN"
| "fadd PosInf _ = PosInf"
| "fadd _ PosInf = PosInf"
| "fadd NegInf _ = NegInf"
| "fadd _ NegInf = NegInf"

definition fsub :: "float64 \<Rightarrow> float64 \<Rightarrow> float64" where
  "fsub a b = fadd a (fneg b)"

definition inf_of_sign :: "real \<Rightarrow> float64" where
  "inf_of_sign a = (if a = 0 then NaN else if 0 < a then PosInf else NegInf)"

fun fmul :: "float64 \<Rightarrow> float64 \<Rightarrow> float64" where
  "fmul (Fin a) (Fin b) = Fin (a * b)"
| "fmul NaN _ = NaN"
| "fmul _ NaN = NaN"
| "fmul PosInf (Fin b) = inf_of_sign b"
| "fmul (Fin a) PosInf = inf_of_sign a"
| "fmul NegInf (Fin b) = inf_of_sign (- b)"
| "fmul (Fin a) NegInf = inf_of_sign (- a)"
| "fmul PosInf PosInf = PosInf"
| "fmul NegInf NegInf = PosInf"
| "fmul PosInf NegInf = NegInf"
| "fmul NegInf PosInf = NegInf"

fun fdiv :: "float64 \<Rightarrow> float64 \<Rightarrow> float64" where
  "fdiv (Fin a) (Fin b) = (if b = 0 then inf_of_sign a else Fin (a / b))"
| "fdiv NaN _ = NaN"
| "fdiv _ NaN = NaN"
| "fdiv (Fin a) _ = Fin 0"
| "fdiv PosInf (Fin b) = (if 0 \<le> b then PosInf else NegInf)"
| "fdiv NegInf (Fin b) = (if 0 \<le> b then NegInf else PosInf)"
| "fdiv _ _ = NaN"

fun fsqrt :: "float64 \<Rightarrow> float64" where
  "fsqrt (Fin a) = (if a < 0 then NaN else Fin (sqrt a))"
| "fsqrt PosInf = PosInf"
| "fsqrt NegInf = NaN"
| "fsqrt NaN = NaN"

text \<open>The smaller of two values, neither of them NaN.\<close>

fun fmin :: "float64 \<Rightarrow> float64 \<Rightarrow> float64" where
  "fmin (Fin a) (Fin b) = Fin (min a b)"
| "fmin NegInf _ = NegInf"
| "fmin _ NegInf = NegInf"
| "fmin PosInf b = b"
| "fmin a _ = a"

text \<open>\<open>round(float(v), n)\<close>: an infinity or NaN is returned as it is.\<close>

fun fround :: "float64 \<Rightarrow> nat \<Rightarrow> float64" where
  "fround (Fin a) n = Fin (py_round a n)"
| "fround v n = v"

subsection \<open>The Series methods used\<close>

text \<open>\<open>pct_change\<close>: \<open>s / s.shift(1) - 1\<close>, whose first entry is NaN.\<close>

definition pct_change :: "real list \<Rightarrow> float64 list" where
  "pct_change s =
     (case s of
        [] \<Rightarrow> []
      | _ # rest \<Rightarrow>
          NaN # map (\<lambda>(prev, cur). fsub (fdiv (Fin cur) (Fin prev)) (Fin 1)) (zip s rest))"

definition dropna :: "float64 list \<Rightarrow> float64 list" where
  "dropna vs = filter (\<lambda>v. v \<noteq> NaN) vs"

definition fsum :: "float64 list \<Rightarrow> float64" where
  "fsum vs = foldl fadd (Fin 0) vs"

definition mean :: "float64 list \<Rightarrow> float64" where
  "mean vs = fdiv (fsum vs) (Fin (real (length vs)))"

text \<open>
  \<open>std\<close> with pandas' default \<open>ddof=1\<close>: NaN when there are not at least two values.
\<close>

definition std :: "float64 list \<Rightarrow> float64" where
  "std vs =
     (let n = length vs
      in if n \<le> 1 then NaN
         else
           (let avg = mean vs;
                sqr = map (\<lambda>v. let d = fsub avg v in fmul d d) vs
            in fsqrt (fdiv (fsum sqr) (Fin (real (n - 1))))))"

fun cummax_from :: "real \<Rightarrow> real list \<Rightarrow> real list" where
  "cummax_from m [] = []"
| "cummax_from m (x # xs) = max m x # cummax_from (max m x) xs"

definition cummax :: "real list \<Rightarrow> real list" where
  "cummax s = (case s of [] \<Rightarrow> [] | x # xs \<Rightarrow> x # cummax_from x xs)"

text \<open>\<open>min\<close> skips NaN entries, and is NaN when nothing is left.\<close>

definition series_min :: "float64 list \<Rightarrow> float64" where
  "series_min vs = (case dropna vs of [] \<Rightarrow> NaN | v # rest \<Rightarrow> foldl fmin v rest)"

subsection \<open>\<open>compute_metrics\<close>\<close>

definition sharpe_of :: "real list \<Rightarrow> float64" where
  "sharpe_of equity_curve =
     (let returns = dropna (pct_change equity_curve)
      in if returns \<noteq> []
         then fmul (fdiv (mean returns) (std returns)) (Fin (sqrt 252))
         else Fin 0)"

definition max_drawdown_of :: "real list \<Rightarrow> float64" where
  "max_drawdown_of equity_curve =
     (let rolling_max = cummax equity_curve;
          drawdown = map (\<lambda>(e, m). fdiv (fsub (Fin e) (Fin m)) (Fin m))
                       (zip equity_curve rolling_max)
      in if drawdown \<noteq> [] then series_min drawdown else Fin 0)"

definition compute_metrics :: "real list \<Rightarrow> (string \<times> float64) list" where
  "compute_metrics equity_curve =
     [(''sharpe_ratio'', fround (sharpe_of equity_curve) 3),
      (''max_drawdown'', fround (fmul (max_drawdown_of equity_curve) (Fin 100)) 2)]"

section \<open>The win rate as the specification words it\<close>

text \<open>
  The specification pairs the executed trades by position, every two trades forming a
  round trip of a Buy and a Sell, and counts the round trips whose Sell was executed
  above the original price of the paired Buy. This definition follows those words, for
  comparison with the \<open>win_rate\<close> that \<open>run_backtest\<close> computes.
\<close>

fun round_trips :: "trade list \<Rightarrow> (trade \<times> trade) list" where
  "round_trips (b # s # rest) = (b, s) # round_trips rest"
| "round_trips _ = []"

definition spec_win_rate :: "trade list \<Rightarrow> real" where
  "spec_win_rate ts =
     (if length ts < 2 then 0
      else real (length (filter (\<lambda>(b, s). price_of b < exec_price s) (round_trips ts)))
             / real (length (round_trips ts)) * 100)"

section \<open>Example inputs\<close>

definition mk_intent :: "real \<Rightarrow> string \<Rightarrow> real \<Rightarrow> real \<Rightarrow> intent" where
  "mk_intent t s p z = \<lparr>time = Some t, side = Some s, price = Some p, size_v = Some z\<rparr>"

definition flat_bar :: "real \<Rightarrow> real \<Rightarrow> bar" where
  "flat_bar t c = \<lparr>timestamp = t, open_px = c, high = c, low = c, close = c, volume = 0\<rparr>"

text \<open>
  The bars of the specification's scenario: closes 100, 101, 99 at times 0, 1, 2.
\<close>

definition three_bars :: "bar list" where
  "three_bars = [flat_bar 0 100, flat_bar 1 101, flat_bar 2 99]"

section \<open>Properties of one step and of the loop\<close>

lemma step_raises_iff:
  "step latency_ms slippage_bps L tr = Inl e \<longleftrightarrow> time tr = None \<and> e = KeyError ''time''"
  by (auto simp: step_def Let_def split: option.splits)

lemma step_no_time: "time tr = None \<Longrightarrow> step latency_ms slippage_bps L tr = Inl (KeyError ''time'')"
  by (simp add: step_def)

lemma step_buy:
  "time tr = Some t \<Longrightarrow> side tr = Some ''buy'' \<Longrightarrow>
   step latency_ms slippage_bps L tr =
     (if exec_price_of slippage_bps tr * size_of tr \<le> cash L
      then Inr (L\<lparr>cash := cash L - exec_price_of slippage_bps tr * size_of tr,
                  position := position L + size_of tr,
                  trades := trades L @
                    [executed tr (t + latency_ms) (exec_price_of slippage_bps tr)]\<rparr>)
      else Inr L)"
  by (simp add: step_def Let_def)

lemma step_sell:
  "time tr = Some t \<Longrightarrow> side tr = Some ''sell'' \<Longrightarrow>
   step latency_ms slippage_bps L tr =
     (if size_of tr \<le> position L
      then Inr (L\<lparr>cash := cash L + exec_price_of slippage_bps tr * size_of tr,
                  position := position L - size_of tr,
                  trades := trades L @
                    [executed tr (t + latency_ms) (exec_price_of slippage_bps tr)]\<rparr>)
      else Inr L)"
  by (simp add: step_def Let_def)

lemma step_other:
  "time tr = Some t \<Longrightarrow> side tr \<noteq> Some ''buy'' \<Longrightarrow> side tr \<noteq> Some ''sell'' \<Longrightarrow>
   step latency_ms slippage_bps L tr = Inr L"
  by (simp add: step_def)

lemma run_loop_append:
  "run_loop latency_ms slippage_bps L (xs @ ys) =
     (case run_loop latency_ms slippage_bps L xs of
        Inl e \<Rightarrow> Inl e
      | Inr L' \<Rightarrow> run_loop latency_ms slippage_bps L' ys)"
  by (induction xs arbitrary: L) (auto split: sum.splits)

lemma run_loop_raises_iff:
  "(\<exists>e. run_loop latency_ms slippage_bps L xs = Inl e) \<longleftrightarrow> (\<exists>tr \<in> set xs. time tr = None)"
proof (induction xs arbitrary: L)
  case Nil
  show ?case by simp
next
  case (Cons x xs)
  show ?case
  proof (cases "step latency_ms slippage_bps L x")
    case (Inl e)
    then have "time x = None" by (simp add: step_raises_iff)
    with Inl show ?thesis by simp
  next
    case (Inr L')
    then have "time x \<noteq> None"
      using step_no_time [of x latency_ms slippage_bps L] by auto
    with Inr Cons.IH [of L'] show ?thesis by auto
  qed
qed

lemma run_loop_error_is_time:
  "run_loop latency_ms slippage_bps L xs = Inl e \<Longrightarrow> e = KeyError ''time''"
  by (induction xs arbitrary: L) (auto simp: step_raises_iff split: sum.splits)

lemma run_loop_returns:
  "\<forall>tr \<in> set xs. time tr \<noteq> None \<Longrightarrow> \<exists>L'. run_loop latency_ms slippage_bps L xs = Inr L'"
  using run_loop_raises_iff [of latency_ms slippage_bps L xs]
  by (cases "run_loop latency_ms slippage_bps L xs") auto

lemma step_trades:
  assumes "step latency_ms slippage_bps L tr = Inr L'"
  shows "trades L' = trades L \<or>
    (\<exists>t. time tr = Some t \<and> (side tr = Some ''buy'' \<or> side tr = Some ''sell'') \<and>
         trades L' = trades L @ [executed tr (t + latency_ms) (exec_price_of slippage_bps tr)])"
  using assms by (auto simp: step_def Let_def split: option.splits if_splits)

lemma run_loop_trades_inv:
  assumes "run_loop latency_ms slippage_bps L0 xs = Inr L"
    and "\<And>x. x \<in> set (trades L0) \<Longrightarrow> Q x"
    and "\<And>tr t. tr \<in> set xs \<Longrightarrow> time tr = Some t \<Longrightarrow>
           side tr = Some ''buy'' \<or> side tr = Some ''sell'' \<Longrightarrow>
           Q (executed tr (t + latency_ms) (exec_price_of slippage_bps tr))"
    and "x \<in> set (trades L)"
  shows "Q x"
  using assms
proof (induction xs arbitrary: L0)
  case Nil
  then show ?case by simp
next
  case (Cons tr xs)
  from Cons.prems(1) obtain L1 where s: "step latency_ms slippage_bps L0 tr = Inr L1"
    and r: "run_loop latency_ms slippage_bps L1 xs = Inr L"
    by (auto split: sum.splits)
  have "\<And>y. y \<in> set (trades L1) \<Longrightarrow> Q y"
  proof -
    fix y assume y: "y \<in> set (trades L1)"
    from step_trades [OF s] show "Q y"
    proof
      assume "trades L1 = trades L0"
      with y Cons.prems(2) show ?thesis by simp
    next
      assume "\<exists>t. time tr = Some t \<and> (side tr = Some ''buy'' \<or> side tr = Some ''sell'') \<and>
         trades L1 = trades L0 @ [executed tr (t + latency_ms) (exec_price_of slippage_bps tr)]"
      then obtain t where t: "time tr = Some t" "side tr = Some ''buy'' \<or> side tr = Some ''sell''"
        "trades L1 = trades L0 @ [executed tr (t + latency_ms) (exec_price_of slippage_bps tr)]"
        by blast
      from y t(3) have "y \<in> set (trades L0) \<or>
          y = executed tr (t + latency_ms) (exec_price_of slippage_bps tr)" by auto
      then show ?thesis
        using Cons.prems(2) Cons.prems(3) [of tr t] t(1,2) by auto
    qed
  qed
  moreover have "\<And>tr' t. tr' \<in> set xs \<Longrightarrow> time tr' = Some t \<Longrightarrow>
           side tr' = Some ''buy'' \<or> side tr' = Some ''sell'' \<Longrightarrow>
           Q (executed tr' (t + latency_ms) (exec_price_of slippage_bps tr'))"
    using Cons.prems(3) by simp
  ultimately show ?case
    using Cons.IH [OF r] Cons.prems(4) by blast
qed

lemma executed_fields:
  "time (executed tr et ep) = time tr" "side (executed tr et ep) = side tr"
  "price (executed tr et ep) = price tr" "size_v (executed tr et ep) = size_v tr"
  "exec_time (executed tr et ep) = et" "exec_price (executed tr et ep) = ep"
  "price_of (executed tr et ep) = price_of tr" "size_of (executed tr et ep) = size_of tr"
  "intent.truncate (executed tr et ep) = tr"
  by (simp_all add: executed_def intent.extend_def price_of_def size_of_def intent.truncate_def)

lemma step_nonneg:
  assumes "step latency_ms slippage_bps L tr = Inr L'"
    and "0 \<le> cash L" "0 \<le> position L"
    and "0 \<le> price_of tr" "0 \<le> size_of tr" "slippage_bps \<le> 10000"
  shows "0 \<le> cash L' \<and> 0 \<le> position L'"
proof -
  have sell: "0 \<le> (price_of tr - slip_of slippage_bps tr) * size_of tr"
  proof -
    have "price_of tr - slip_of slippage_bps tr = price_of tr * (1 - slippage_bps / 10000)"
      by (simp add: slip_of_def algebra_simps)
    moreover have "0 \<le> 1 - slippage_bps / 10000"
      using assms(6) by simp
    ultimately show ?thesis
      using assms(4,5) by (simp add: mult_nonneg_nonneg)
  qed
  from assms(1) obtain t where t: "time tr = Some t"
    using step_no_time [of tr latency_ms slippage_bps L] by (cases "time tr") auto
  show ?thesis
  proof (cases "side tr = Some ''buy''")
    case True
    with t assms(1,2,3,5) show ?thesis
      by (auto simp: step_buy split: if_splits)
  next
    case nb: False
    show ?thesis
    proof (cases "side tr = Some ''sell''")
      case True
      with t nb assms(1,2,3) sell show ?thesis
        by (auto simp: step_sell exec_price_of_def split: if_splits)
    next
      case False
      with t nb assms(1,2,3) show ?thesis
        by (simp add: step_other)
    qed
  qed
qed

lemma run_loop_nonneg:
  assumes "run_loop latency_ms slippage_bps L0 xs = Inr L"
    and "0 \<le> cash L0" "0 \<le> position L0"
    and "\<forall>tr \<in> set xs. 0 \<le> price_of tr \<and> 0 \<le> size_of tr"
    and "slippage_bps \<le> 10000"
  shows "0 \<le> cash L \<and> 0 \<le> position L"
  using assms
proof (induction xs arbitrary: L0)
  case Nil
  then show ?case by simp
next
  case (Cons tr xs)
  from Cons.prems(1) obtain L1 where s: "step latency_ms slippage_bps L0 tr = Inr L1"
    and r: "run_loop latency_ms slippage_bps L1 xs = Inr L"
    by (auto split: sum.splits)
  from step_nonneg [OF s Cons.prems(2,3)] Cons.prems(4,5)
  have "0 \<le> cash L1 \<and> 0 \<le> position L1" by simp
  with Cons.IH [OF r] Cons.prems(4,5) show ?case by simp
qed

lemmas example_defs = mk_intent_def flat_bar_def three_bars_def init_ledger_def
lemmas engine_defs = step_def executed_def intent.extend_def price_of_def size_of_def slip_of_def
  exec_price_of_def

section \<open>Rejections\<close>

text \<open>
  C5. A Buy whose cost exceeds the cash and a Sell larger than the position are rejected
  without an error: the step returns the ledger it was given (cash, position and trades
  unchanged), and the loop goes on with the next intent. The cost is the execution price
  times the size.
\<close>

theorem rejected_intent_leaves_ledger_unchanged:
  assumes "time tr = Some t"
    and "side tr = Some ''buy'' \<and>
           cash L < (price_of tr + price_of tr * slippage_bps / 10000) * size_of tr
         \<or> side tr = Some ''sell'' \<and> position L < size_of tr"
  shows "step latency_ms slippage_bps L tr = Inr L \<and>
         run_loop latency_ms slippage_bps L (tr # rest) = run_loop latency_ms slippage_bps L rest"
proof -
  have "step latency_ms slippage_bps L tr = Inr L"
    using assms by (auto simp: step_buy step_sell exec_price_of_def slip_of_def)
  then show ?thesis by simp
qed

theorem rejected_intent_leaves_ledger_unchanged_witness:
  "time (mk_intent 1 ''buy'' 101 1) = Some 1 \<and>
   side (mk_intent 1 ''buy'' 101 1) = Some ''buy'' \<and>
   cash (init_ledger 50) < (price_of (mk_intent 1 ''buy'' 101 1)
      + price_of (mk_intent 1 ''buy'' 101 1) * 0 / 10000) * size_of (mk_intent 1 ''buy'' 101 1) \<and>
   step 0 0 (init_ledger 50) (mk_intent 1 ''buy'' 101 1) = Inr (init_ledger 50) \<and>
   run_loop 0 0 (init_ledger 50) [mk_intent 1 ''buy'' 101 1, mk_intent 2 ''buy'' 40 1]
     = run_loop 0 0 (init_ledger 50) [mk_intent 2 ''buy'' 40 1]"
proof -
  have h1: "time (mk_intent 1 ''buy'' 101 1) = Some 1"
    by (simp add: mk_intent_def)
  have h2: "side (mk_intent 1 ''buy'' 101 1) = Some ''buy'' \<and>
      cash (init_ledger 50) < (price_of (mk_intent 1 ''buy'' 101 1)
        + price_of (mk_intent 1 ''buy'' 101 1) * 0 / 10000) * size_of (mk_intent 1 ''buy'' 101 1)"
    by (simp add: example_defs price_of_def size_of_def)
  from h2 have h2': "side (mk_intent 1 ''buy'' 101 1) = Some ''buy'' \<and>
      cash (init_ledger 50) < (price_of (mk_intent 1 ''buy'' 101 1)
        + price_of (mk_intent 1 ''buy'' 101 1) * 0 / 10000) * size_of (mk_intent 1 ''buy'' 101 1)
      \<or> side (mk_intent 1 ''buy'' 101 1) = Some ''sell'' \<and>
        position (init_ledger 50) < size_of (mk_intent 1 ''buy'' 101 1)"
    by (rule disjI1)
  from rejected_intent_leaves_ledger_unchanged
    [of "mk_intent 1 ''buy'' 101 1" 1 "init_ledger 50" 0 0 "[mk_intent 2 ''buy'' 40 1]", OF h1 h2']
    h1 h2
  show ?thesis by simp
qed

text \<open>
  C10. An intent whose side is neither \<open>'buy'\<close> nor \<open>'sell'\<close> (a missing side
  included) and that carries a time leaves the ledger as it is, raises nothing, and the
  loop goes on with the next intent.
\<close>

theorem unknown_side_is_skipped:
  assumes "time tr = Some t"
    and "side tr \<noteq> Some ''buy''" and "side tr \<noteq> Some ''sell''"
  shows "step latency_ms slippage_bps L tr = Inr L \<and>
         run_loop latency_ms slippage_bps L (tr # rest) = run_loop latency_ms slippage_bps L rest"
  using assms by (simp add: step_other)

theorem unknown_side_is_skipped_witness:
  "time \<lparr>time = Some 1, side = None, price = Some 101, size_v = Some 1\<rparr> = Some 1 \<and>
   side \<lparr>time = Some 1, side = None, price = Some 101, size_v = Some 1\<rparr> \<noteq> Some ''buy'' \<and>
   side \<lparr>time = Some 1, side = None, price = Some 101, size_v = Some 1\<rparr> \<noteq> Some ''sell'' \<and>
   step 3 1 (init_ledger 1000) \<lparr>time = Some 1, side = None, price = Some 101, size_v = Some 1\<rparr>
     = Inr (init_ledger 1000) \<and>
   run_loop 3 1 (init_ledger 1000)
     [\<lparr>time = Some 1, side = None, price = Some 101, size_v = Some 1\<rparr>, mk_intent 2 ''buy'' 100 1]
     = run_loop 3 1 (init_ledger 1000) [mk_intent 2 ''buy'' 100 1]"
  using unknown_side_is_skipped
    [of "\<lparr>time = Some 1, side = None, price = Some 101, size_v = Some 1\<rparr>" 1 3 1
        "init_ledger 1000" "[mk_intent 2 ''buy'' 100 1]"]
  by simp

text \<open>
  The claim as stated fails for an intent without a time: \<open>trade['time']\<close> is read
  before the side is looked at, so the run ends in a KeyError.
\<close>

theorem unknown_side_without_time_raises:
  "run_backtest (\<lambda>df. [\<lparr>time = None, side = None, price = Some 101, size_v = Some 1\<rparr>])
     three_bars 0 1000 1 = Inl (KeyError ''time'')"
  by (simp add: run_backtest_def step_def)

section \<open>Latency and slippage\<close>

text \<open>
  C6. Every trade the engine records carries the execution time \<open>time + latency_ms\<close>
  and the execution price \<open>price + slippage\<close> for a Buy, \<open>price - slippage\<close> for a
  Sell, where the slippage is \<open>price * slippage_bps / 10000\<close>; the recorded trade is one
  of the strategy's intents with these two entries added.
\<close>

theorem executed_trade_time_and_price:
  assumes "run_loop latency_ms slippage_bps (init_ledger starting_cash) intents = Inr L"
    and "x \<in> set (trades L)"
  shows "(\<exists>t. time x = Some t \<and> exec_time x = t + latency_ms) \<and>
         (side x = Some ''buy'' \<or> side x = Some ''sell'') \<and>
         (side x = Some ''buy'' \<longrightarrow>
            exec_price x = price_of x + price_of x * slippage_bps / 10000) \<and>
         (side x = Some ''sell'' \<longrightarrow>
            exec_price x = price_of x - price_of x * slippage_bps / 10000) \<and>
         intent.truncate x \<in> set intents"
proof (rule run_loop_trades_inv [OF assms(1) _ _ assms(2)])
  fix y assume "y \<in> set (trades (init_ledger starting_cash))"
  then show "(\<exists>t. time y = Some t \<and> exec_time y = t + latency_ms) \<and>
         (side y = Some ''buy'' \<or> side y = Some ''sell'') \<and>
         (side y = Some ''buy'' \<longrightarrow>
            exec_price y = price_of y + price_of y * slippage_bps / 10000) \<and>
         (side y = Some ''sell'' \<longrightarrow>
            exec_price y = price_of y - price_of y * slippage_bps / 10000) \<and>
         intent.truncate y \<in> set intents"
    by (simp add: init_ledger_def)
next
  fix tr t
  assume tr: "tr \<in> set intents" "time tr = Some t"
    "side tr = Some ''buy'' \<or> side tr = Some ''sell''"
  define y where "y = executed tr (t + latency_ms) (exec_price_of slippage_bps tr)"
  have "time y = Some t" "exec_time y = t + latency_ms" "side y = side tr"
    "price_of y = price_of tr" "exec_price y = exec_price_of slippage_bps tr"
    "intent.truncate y = tr"
    by (simp_all add: y_def executed_fields tr(2))
  with tr show "(\<exists>t. time y = Some t \<and> exec_time y = t + latency_ms) \<and>
         (side y = Some ''buy'' \<or> side y = Some ''sell'') \<and>
         (side y = Some ''buy'' \<longrightarrow>
            exec_price y = price_of y + price_of y * slippage_bps / 10000) \<and>
         (side y = Some ''sell'' \<longrightarrow>
            exec_price y = price_of y - price_of y * slippage_bps / 10000) \<and>
         intent.truncate y \<in> set intents"
    by (auto simp: exec_price_of_def slip_of_def)
qed

theorem executed_trade_time_and_price_witness:
  "run_loop 3 1 (init_ledger 1000) [mk_intent 1 ''buy'' 100 1, mk_intent 2 ''sell'' 110 1]
     = Inr \<lparr>cash = 1000 - 10001 / 100 + 109989 / 1000, position = 0,
            trades = [executed (mk_intent 1 ''buy'' 100 1) 4 (10001 / 100),
                      executed (mk_intent 2 ''sell'' 110 1) 5 (109989 / 1000)]\<rparr> \<and>
   exec_time (executed (mk_intent 2 ''sell'' 110 1) 5 (109989 / 1000)) = 2 + 3 \<and>
   exec_price (executed (mk_intent 2 ''sell'' 110 1) 5 (109989 / 1000)) = 110 - 110 * 1 / 10000 \<and>
   exec_time (executed (mk_intent 1 ''buy'' 100 1) 4 (10001 / 100)) = 1 + 3 \<and>
   exec_price (executed (mk_intent 1 ''buy'' 100 1) 4 (10001 / 100)) = 100 + 100 * 1 / 10000"
proof -
  let ?b = "executed (mk_intent 1 ''buy'' 100 1) 4 (10001 / 100)"
  let ?s = "executed (mk_intent 2 ''sell'' 110 1) 5 (109989 / 1000)"
  let ?L = "\<lparr>cash = 1000 - 10001 / 100 + 109989 / 1000, position = 0, trades = [?b, ?s]\<rparr>"
  have run: "run_loop 3 1 (init_ledger 1000)
      [mk_intent 1 ''buy'' 100 1, mk_intent 2 ''sell'' 110 1] = Inr ?L"
    by (simp add: example_defs engine_defs)
  have s: "?s \<in> set (trades ?L)" and b: "?b \<in> set (trades ?L)"
    by simp_all
  from executed_trade_time_and_price [OF run s] executed_trade_time_and_price [OF run b] run
  show ?thesis
    by (simp add: executed_fields mk_intent_def price_of_def)
qed

section \<open>The ledger never goes negative\<close>

text \<open>
  C4, as the code has it. The engine checks the cash before a Buy and the position before
  a Sell, and nothing else: it does not look at the sign of a size or of a price. When the
  strategy's prices and sizes are not negative and the slippage is at most 10000 basis
  points (so that a Sell is not executed at a negative price), the cash and the position
  are not negative after any number of processed intents. A Buy that the cash does not
  cover and a Sell larger than the position leave the ledger as it is.
\<close>

theorem ledger_nonneg_after_every_step:
  assumes "0 < starting_cash" and "slippage_bps \<le> 10000"
    and "\<forall>tr \<in> set (strategy_fn (sort_values data)). 0 \<le> price_of tr \<and> 0 \<le> size_of tr"
    and "run_loop latency_ms slippage_bps (init_ledger starting_cash)
           (take n (strategy_fn (sort_values data))) = Inr L"
  shows "0 \<le> cash L \<and> 0 \<le> position L \<and>
    (\<forall>tr t. time tr = Some t \<and> side tr = Some ''buy'' \<and>
        cash L < exec_price_of slippage_bps tr * size_of tr
        \<longrightarrow> step latency_ms slippage_bps L tr = Inr L) \<and>
    (\<forall>tr t. time tr = Some t \<and> side tr = Some ''sell'' \<and> position L < size_of tr
        \<longrightarrow> step latency_ms slippage_bps L tr = Inr L)"
proof -
  have "\<forall>tr \<in> set (take n (strategy_fn (sort_values data))). 0 \<le> price_of tr \<and> 0 \<le> size_of tr"
    using assms(3) by (meson in_set_takeD)
  from run_loop_nonneg [OF assms(4) _ _ this assms(2)] assms(1)
  have "0 \<le> cash L \<and> 0 \<le> position L"
    by (simp add: init_ledger_def)
  then show ?thesis
    by (auto simp: step_buy step_sell)
qed

theorem ledger_nonneg_after_every_step_witness:
  "(0::real) < 1000 \<and> (0::real) \<le> 10000 \<and>
   run_loop 0 0 (init_ledger 1000)
     (take 1 ((\<lambda>df. [mk_intent 1 ''buy'' 101 1, mk_intent 2 ''sell'' 99 1]) (sort_values three_bars)))
     = Inr \<lparr>cash = 899, position = 1, trades = [executed (mk_intent 1 ''buy'' 101 1) 1 101]\<rparr> \<and>
   0 \<le> cash \<lparr>cash = 899, position = 1, trades = [executed (mk_intent 1 ''buy'' 101 1) 1 101]\<rparr> \<and>
   0 \<le> position \<lparr>cash = 899, position = 1, trades = [executed (mk_intent 1 ''buy'' 101 1) 1 101]\<rparr> \<and>
   step 0 0 \<lparr>cash = 899, position = 1, trades = [executed (mk_intent 1 ''buy'' 101 1) 1 101]\<rparr>
     (mk_intent 2 ''sell'' 99 2)
     = Inr \<lparr>cash = 899, position = 1, trades = [executed (mk_intent 1 ''buy'' 101 1) 1 101]\<rparr>"
proof -
  let ?f = "\<lambda>df::bar list. [mk_intent 1 ''buy'' 101 1, mk_intent 2 ''sell'' 99 1]"
  let ?L = "\<lparr>cash = 899, position = 1, trades = [executed (mk_intent 1 ''buy'' 101 1) 1 101]\<rparr>"
  have h1: "(0::real) < 1000" and h2: "(0::real) \<le> 10000"
    by simp_all
  have h3: "\<forall>tr \<in> set (?f (sort_values three_bars)). 0 \<le> price_of tr \<and> 0 \<le> size_of tr"
    by (simp add: mk_intent_def price_of_def size_of_def)
  have h4: "run_loop 0 0 (init_ledger 1000) (take 1 (?f (sort_values three_bars))) = Inr ?L"
    by (simp add: example_defs engine_defs)
  have h5: "time (mk_intent 2 ''sell'' 99 2) = Some 2 \<and>
      side (mk_intent 2 ''sell'' 99 2) = Some ''sell'' \<and>
      position ?L < size_of (mk_intent 2 ''sell'' 99 2)"
    by (simp add: mk_intent_def size_of_def)
  from ledger_nonneg_after_every_step [of 1000 0 ?f three_bars 0 1 ?L, OF h1 h2 h3 h4] h5
  have "0 \<le> cash ?L \<and> 0 \<le> position ?L \<and> step 0 0 ?L (mk_intent 2 ''sell'' 99 2) = Inr ?L"
    by blast
  with h1 h2 h4 show ?thesis by simp
qed

text \<open>
  The claim as stated, for every strategy and every slippage, fails. With a slippage of
  20000 basis points a Sell is executed at a negative price and the cash goes negative
  though the starting cash, all prices and all sizes are positive; and a Buy of a negative
  size is accepted and leaves a negative position.
\<close>

theorem ledger_negative_counterexample:
  "run_loop 0 20000 (init_ledger 100) [mk_intent 1 ''buy'' 10 1, mk_intent 2 ''sell'' 100 1]
     = Inr \<lparr>cash = - 30, position = 0,
            trades = [executed (mk_intent 1 ''buy'' 10 1) 1 30,
                      executed (mk_intent 2 ''sell'' 100 1) 2 (- 100)]\<rparr> \<and>
   run_loop 0 0 (init_ledger 100) [mk_intent 1 ''buy'' 10 (- 1)]
     = Inr \<lparr>cash = 110, position = - 1,
            trades = [executed (mk_intent 1 ''buy'' 10 (- 1)) 1 10]\<rparr>"
  by (simp add: example_defs engine_defs)

section \<open>Properties of the report\<close>

lemma sort_values_Nil: "sort_values data = [] \<longleftrightarrow> data = []"
proof -
  have "length (sort_values data) = length data"
    by (simp add: sort_values_def)
  then show ?thesis
    by (metis length_0_conv)
qed

lemma win_trades_Inr:
  "win_trades ts = Inr ws \<Longrightarrow>
   ws = filter (\<lambda>t. side t = Some ''sell'' \<and> price_of t < exec_price t) ts"
proof (induction ts arbitrary: ws)
  case Nil
  then show ?case by simp
next
  case (Cons t ts)
  show ?case
  proof (cases "side t = Some ''sell''")
    case False
    with Cons show ?thesis by simp
  next
    case True
    with Cons.prems obtain p ws' where p: "price t = Some p"
      and ws': "win_trades ts = Inr ws'"
      and ws: "ws = (if p < exec_price t then t # ws' else ws')"
      by (auto split: option.splits sum.splits)
    from p have "price_of t = p"
      by (simp add: price_of_def)
    with True ws Cons.IH [OF ws'] show ?thesis by simp
  qed
qed

lemma win_trades_returns:
  "\<forall>t \<in> set ts. side t = Some ''sell'' \<longrightarrow> price t \<noteq> None \<Longrightarrow> \<exists>ws. win_trades ts = Inr ws"
  by (induction ts) (auto split: option.splits sum.splits)

lemma py_round_zero: "py_round 0 n = 0"
  by (simp add: py_round_def)

lemma run_backtest_Inr:
  assumes "run_loop latency_ms slippage_bps (init_ledger starting_cash)
             (strategy_fn (sort_values data)) = Inr L"
    and "data \<noteq> []" and "win_trades (trades L) = Inr ws"
  shows "run_backtest strategy_fn data latency_ms starting_cash slippage_bps =
           Inr (report starting_cash (close (last (sort_values data))) L ws)"
  using assms by (simp add: run_backtest_def Let_def sort_values_Nil report_def)

lemma run_backtest_Inr_D:
  assumes "run_backtest strategy_fn data latency_ms starting_cash slippage_bps = Inr r"
  obtains L ws where
    "run_loop latency_ms slippage_bps (init_ledger starting_cash)
       (strategy_fn (sort_values data)) = Inr L"
    "data \<noteq> []" "win_trades (trades L) = Inr ws"
    "r = report starting_cash (close (last (sort_values data))) L ws"
proof -
  from assms obtain L where L: "run_loop latency_ms slippage_bps (init_ledger starting_cash)
       (strategy_fn (sort_values data)) = Inr L"
    by (auto simp: run_backtest_def Let_def split: sum.splits)
  from assms L have d: "data \<noteq> []"
    by (auto simp: run_backtest_def Let_def sort_values_Nil split: if_splits)
  from assms L d obtain ws where ws: "win_trades (trades L) = Inr ws"
    by (auto simp: run_backtest_def Let_def sort_values_Nil split: sum.splits)
  from run_backtest_Inr [where strategy_fn = strategy_fn and data = data, OF L d ws] assms
  have "r = report starting_cash (close (last (sort_values data))) L ws"
    by simp
  with L d ws that show thesis by blast
qed

lemma run_backtest_returns:
  assumes "data \<noteq> []"
    and "\<forall>tr \<in> set (strategy_fn (sort_values data)). time tr \<noteq> None \<and> price tr \<noteq> None"
  shows "\<exists>r. run_backtest strategy_fn data latency_ms starting_cash slippage_bps = Inr r"
proof -
  from assms(2) obtain L where L: "run_loop latency_ms slippage_bps (init_ledger starting_cash)
       (strategy_fn (sort_values data)) = Inr L"
    using run_loop_returns [of "strategy_fn (sort_values data)" latency_ms slippage_bps
        "init_ledger starting_cash"] by auto
  have "\<forall>t \<in> set (trades L). side t = Some ''sell'' \<longrightarrow> price t \<noteq> None"
  proof (intro ballI impI)
    fix t assume t: "t \<in> set (trades L)"
    have "price t = price (intent.truncate t)"
      by (simp add: intent.truncate_def)
    moreover have "intent.truncate t \<in> set (strategy_fn (sort_values data))"
      by (rule run_loop_trades_inv [OF L _ _ t]) (simp_all add: init_ledger_def executed_fields)
    ultimately show "price t \<noteq> None"
      using assms(2) by auto
  qed
  then obtain ws where "win_trades (trades L) = Inr ws"
    using win_trades_returns by blast
  from run_backtest_Inr [where strategy_fn = strategy_fn and data = data, OF L assms(1) this]
  show ?thesis by blast
qed

lemma map_of_report:
  "map_of (report c lp L ws) ''pnl'' = Some (Num (py_round (cash L + position L * lp - c) 2))"
  "map_of (report c lp L ws) ''final_equity'' = Some (Num (py_round (cash L + position L * lp) 2))"
  "map_of (report c lp L ws) ''cash'' = Some (Num (py_round (cash L) 2))"
  "map_of (report c lp L ws) ''position'' = Some (Num (py_round (position L) 4))"
  "map_of (report c lp L ws) ''total_trades'' = Some (Count (length (trades L)))"
  "map_of (report c lp L ws) ''win_rate'' = Some (Num (py_round
      (if 2 \<le> length (trades L)
       then real (length ws) / (real (length (trades L)) / 2) * 100 else 0) 2))"
  "map_of (report c lp L ws) ''trades'' = Some (Trades (trades L))"
  by (simp_all add: report_def)

section \<open>Terminal valuation\<close>

text \<open>
  C7. For a non-empty bar series, a run that returns has valued the final ledger at the
  close of the last bar of the frame sorted by time stamp: the equity is
  \<open>cash + position * last_price\<close> and the profit is the equity less the starting cash.
  The report holds these two values, and the cash and the position, rounded by
  \<open>round\<close> to 2 (the position to 4) decimal places. The run does return when every
  intent carries a time and a price.
\<close>

theorem terminal_valuation:
  assumes "data \<noteq> []"
  shows "(run_backtest strategy_fn data latency_ms starting_cash slippage_bps = Inr r \<longrightarrow>
           (\<exists>L. run_loop latency_ms slippage_bps (init_ledger starting_cash)
                   (strategy_fn (sort_values data)) = Inr L \<and>
                map_of r ''final_equity'' =
                  Some (Num (py_round (cash L + position L * close (last (sort_values data))) 2)) \<and>
                map_of r ''pnl'' =
                  Some (Num (py_round
                    (cash L + position L * close (last (sort_values data)) - starting_cash) 2)) \<and>
                map_of r ''cash'' = Some (Num (py_round (cash L) 2)) \<and>
                map_of r ''position'' = Some (Num (py_round (position L) 4)))) \<and>
         ((\<forall>tr \<in> set (strategy_fn (sort_values data)). time tr \<noteq> None \<and> price tr \<noteq> None) \<longrightarrow>
           (\<exists>r'. run_backtest strategy_fn data latency_ms starting_cash slippage_bps = Inr r'))"
proof (intro conjI impI)
  assume "run_backtest strategy_fn data latency_ms starting_cash slippage_bps = Inr r"
  then obtain L ws where
    L: "run_loop latency_ms slippage_bps (init_ledger starting_cash)
          (strategy_fn (sort_values data)) = Inr L"
    and r: "r = report starting_cash (close (last (sort_values data))) L ws"
    by (rule run_backtest_Inr_D)
  show "\<exists>L. run_loop latency_ms slippage_bps (init_ledger starting_cash)
                   (strategy_fn (sort_values data)) = Inr L \<and>
                map_of r ''final_equity'' =
                  Some (Num (py_round (cash L + position L * close (last (sort_values data))) 2)) \<and>
                map_of r ''pnl'' =
                  Some (Num (py_round
                    (cash L + position L * close (last (sort_values data)) - starting_cash) 2)) \<and>
                map_of r ''cash'' = Some (Num (py_round (cash L) 2)) \<and>
                map_of r ''position'' = Some (Num (py_round (position L) 4))"
    unfolding r using L by (intro exI [of _ L] conjI map_of_report)
next
  assume "\<forall>tr \<in> set (strategy_fn (sort_values data)). time tr \<noteq> None \<and> price tr \<noteq> None"
  with assms show "\<exists>r'. run_backtest strategy_fn data latency_ms starting_cash slippage_bps = Inr r'"
    by (rule run_backtest_returns)
qed

theorem terminal_valuation_witness:
  "three_bars \<noteq> [] \<and>
   run_loop 0 0 (init_ledger 1000) [mk_intent 1 ''buy'' 101 1]
     = Inr \<lparr>cash = 899, position = 1, trades = [executed (mk_intent 1 ''buy'' 101 1) 1 101]\<rparr> \<and>
   close (last (sort_values three_bars)) = 99 \<and>
   run_backtest (\<lambda>df. [mk_intent 1 ''buy'' 101 1]) three_bars 0 1000 0
     = Inr [(''pnl'', Num (- 2)), (''final_equity'', Num 998), (''cash'', Num 899),
            (''position'', Num 1), (''total_trades'', Count 1), (''win_rate'', Num 0),
            (''trades'', Trades [executed (mk_intent 1 ''buy'' 101 1) 1 101])] \<and>
   py_round (899 + 1 * 99) 2 = 998 \<and> py_round (899 + 1 * 99 - 1000) 2 = - 2"
proof -
  let ?f = "\<lambda>df::bar list. [mk_intent 1 ''buy'' 101 1]"
  let ?r = "[(''pnl'', Num (- 2)), (''final_equity'', Num 998), (''cash'', Num 899),
            (''position'', Num 1), (''total_trades'', Count 1), (''win_rate'', Num 0),
            (''trades'', Trades [executed (mk_intent 1 ''buy'' 101 1) 1 101])]"
  have h: "three_bars \<noteq> []"
    by (simp add: three_bars_def)
  have run: "run_backtest ?f three_bars 0 1000 0 = Inr ?r"
    by (simp add: run_backtest_def sort_values_def example_defs engine_defs py_round_def)
  have loop: "run_loop 0 0 (init_ledger 1000) [mk_intent 1 ''buy'' 101 1]
     = Inr \<lparr>cash = 899, position = 1, trades = [executed (mk_intent 1 ''buy'' 101 1) 1 101]\<rparr>"
    by (simp add: example_defs engine_defs)
  have lp: "close (last (sort_values three_bars)) = 99"
    by (simp add: sort_values_def example_defs)
  from terminal_valuation [OF h, of ?f 0 1000 0 ?r] run loop lp
  have "Some (Num 998) = Some (Num (py_round (899 + 1 * 99) 2)) \<and>
        Some (Num (- 2)) = Some (Num (py_round (899 + 1 * 99 - 1000) 2))"
    by simp
  with h run loop lp show ?thesis by simp
qed

section \<open>The win rate\<close>

text \<open>
  What lines 89 to 93 compute: 100 times the number of executed Sells whose execution
  price exceeds the price of that same Sell's intent, divided by half the number of
  executed trades, rounded to 2 places; 0 when fewer than two trades were executed.
\<close>

lemma win_rate_as_computed:
  assumes "run_backtest strategy_fn data latency_ms starting_cash slippage_bps = Inr r"
  shows "\<exists>L. run_loop latency_ms slippage_bps (init_ledger starting_cash)
                (strategy_fn (sort_values data)) = Inr L \<and>
             map_of r ''total_trades'' = Some (Count (length (trades L))) \<and>
             map_of r ''win_rate'' = Some (Num (py_round
               (if 2 \<le> length (trades L)
                then real (length (filter
                        (\<lambda>t. side t = Some ''sell'' \<and> price_of t < exec_price t) (trades L)))
                     / (real (length (trades L)) / 2) * 100
                else 0) 2)) \<and>
             (length (trades L) < 2 \<longrightarrow> map_of r ''win_rate'' = Some (Num 0))"
proof -
  from assms obtain L ws where
    L: "run_loop latency_ms slippage_bps (init_ledger starting_cash)
          (strategy_fn (sort_values data)) = Inr L"
    and ws: "win_trades (trades L) = Inr ws"
    and r: "r = report starting_cash (close (last (sort_values data))) L ws"
    by (rule run_backtest_Inr_D)
  from win_trades_Inr [OF ws]
  have "ws = filter (\<lambda>t. side t = Some ''sell'' \<and> price_of t < exec_price t) (trades L)" .
  with L show ?thesis
    unfolding r by (intro exI [of _ L]) (simp add: map_of_report py_round_zero)
qed

lemma sell_never_above_own_price:
  assumes "run_loop latency_ms slippage_bps (init_ledger starting_cash) intents = Inr L"
    and "0 \<le> slippage_bps"
    and "\<forall>tr \<in> set intents. 0 \<le> price_of tr"
    and "t \<in> set (trades L)"
  shows "\<not> (side t = Some ''sell'' \<and> price_of t < exec_price t)"
proof (rule run_loop_trades_inv [OF assms(1) _ _ assms(4)])
  fix y assume "y \<in> set (trades (init_ledger starting_cash))"
  then show "\<not> (side y = Some ''sell'' \<and> price_of y < exec_price y)"
    by (simp add: init_ledger_def)
next
  fix tr u
  assume tr: "tr \<in> set intents"
  define y where "y = executed tr (u + latency_ms) (exec_price_of slippage_bps tr)"
  have y: "side y = side tr" "price_of y = price_of tr"
    "exec_price y = exec_price_of slippage_bps tr"
    by (simp_all add: y_def executed_fields)
  from tr assms(3) have "0 \<le> price_of tr" by simp
  with assms(2) have "0 \<le> price_of tr * (slippage_bps / 10000)"
    by simp
  then have "side tr = Some ''sell'' \<Longrightarrow> exec_price_of slippage_bps tr \<le> price_of tr"
    by (simp add: exec_price_of_def slip_of_def)
  with y show "\<not> (side y = Some ''sell'' \<and> price_of y < exec_price y)"
    by auto
qed

text \<open>
  C1. The reported win rate is not the share of the round trips whose Sell was executed
  above the price of the paired Buy. Line 91 compares the execution price of a Sell with
  the price of that same Sell, and slippage only takes from it: whenever the slippage is
  not negative and no price is negative, no Sell counts as a win and the reported win rate
  is 0, whatever the trades earned. (With fewer than two trades it is 0 as well, see
  \<open>win_rate_as_computed\<close>.)
\<close>

theorem win_rate_zero_for_nonneg_slippage:
  assumes "run_backtest strategy_fn data latency_ms starting_cash slippage_bps = Inr r"
    and "0 \<le> slippage_bps"
    and "\<forall>tr \<in> set (strategy_fn (sort_values data)). 0 \<le> price_of tr"
  shows "map_of r ''win_rate'' = Some (Num 0)"
proof -
  from win_rate_as_computed [OF assms(1)] obtain L where
    L: "run_loop latency_ms slippage_bps (init_ledger starting_cash)
          (strategy_fn (sort_values data)) = Inr L"
    and w: "map_of r ''win_rate'' = Some (Num (py_round
               (if 2 \<le> length (trades L)
                then real (length (filter
                        (\<lambda>t. side t = Some ''sell'' \<and> price_of t < exec_price t) (trades L)))
                     / (real (length (trades L)) / 2) * 100
                else 0) 2))"
    by blast
  have "filter (\<lambda>t. side t = Some ''sell'' \<and> price_of t < exec_price t) (trades L) = []"
    unfolding filter_empty_conv
    using sell_never_above_own_price [OF L assms(2,3)] by blast
  with w show ?thesis
    by (simp add: py_round_zero)
qed

text \<open>
  The failing input: a Buy at 100 followed by a Sell at 110, without slippage. It is one
  round trip whose Sell is executed above the Buy's price, a win rate of 100 as the
  specification words it. The code compares the Sell's execution price 110 with the
  Sell's own price 110 and reports 0.
\<close>

theorem win_rate_zero_for_nonneg_slippage_witness:
  "(0::real) \<le> 0 \<and>
   run_backtest (\<lambda>df. [mk_intent 1 ''buy'' 100 1, mk_intent 2 ''sell'' 110 1])
       three_bars 0 1000 0
     = Inr [(''pnl'', Num 10), (''final_equity'', Num 1010),
            (''cash'', Num 1010), (''position'', Num 0), (''total_trades'', Count 2),
            (''win_rate'', Num 0),
            (''trades'', Trades [executed (mk_intent 1 ''buy'' 100 1) 1 100,
                                 executed (mk_intent 2 ''sell'' 110 1) 2 110])] \<and>
   map_of [(''pnl'', Num 10), (''final_equity'', Num 1010),
           (''cash'', Num 1010), (''position'', Num 0), (''total_trades'', Count 2),
           (''win_rate'', Num 0),
           (''trades'', Trades [executed (mk_intent 1 ''buy'' 100 1) 1 100,
                                executed (mk_intent 2 ''sell'' 110 1) 2 110])]
     ''win_rate'' = Some (Num 0) \<and>
   spec_win_rate [executed (mk_intent 1 ''buy'' 100 1) 1 100,
                  executed (mk_intent 2 ''sell'' 110 1) 2 110] = 100"
proof -
  let ?f = "\<lambda>df::bar list. [mk_intent 1 ''buy'' 100 1, mk_intent 2 ''sell'' 110 1]"
  let ?r = "[(''pnl'', Num 10), (''final_equity'', Num 1010),
            (''cash'', Num 1010), (''position'', Num 0), (''total_trades'', Count 2),
            (''win_rate'', Num 0),
            (''trades'', Trades [executed (mk_intent 1 ''buy'' 100 1) 1 100,
                                 executed (mk_intent 2 ''sell'' 110 1) 2 110])]"
  have h2: "(0::real) \<le> 0" by simp
  have run: "run_backtest ?f three_bars 0 1000 0 = Inr ?r"
    by (simp add: run_backtest_def sort_values_def example_defs engine_defs py_round_def
        Let_def eval_nat_numeral)
  have h3: "\<forall>tr \<in> set (?f (sort_values three_bars)). 0 \<le> price_of tr"
    by (simp add: mk_intent_def price_of_def)
  have w: "map_of ?r ''win_rate'' = Some (Num 0)"
    by (rule win_rate_zero_for_nonneg_slippage [OF run h2 h3])
  have s: "spec_win_rate [executed (mk_intent 1 ''buy'' 100 1) 1 100,
                  executed (mk_intent 2 ''sell'' 110 1) 2 110] = 100"
    by (simp add: spec_win_rate_def example_defs engine_defs)
  from h2 run w s show ?thesis by blast
qed

section \<open>Configuration\<close>

lemma step_without_funds:
  assumes "cash L \<le> 0" and "position L \<le> 0" and "- 10000 < slippage_bps"
    and "time tr \<noteq> None" and "0 < price_of tr" and "0 < size_of tr"
  shows "step latency_ms slippage_bps L tr = Inr L"
proof -
  from assms(4) obtain t where t: "time tr = Some t" by auto
  have "price_of tr + slip_of slippage_bps tr = price_of tr * (1 + slippage_bps / 10000)"
    by (simp add: slip_of_def algebra_simps)
  moreover have "0 < 1 + slippage_bps / 10000"
    using assms(3) by simp
  ultimately have "0 < (price_of tr + slip_of slippage_bps tr) * size_of tr"
    using assms(5,6) by simp
  with assms(1) have buy: "cash L < (price_of tr + slip_of slippage_bps tr) * size_of tr"
    by simp
  from assms(2,6) have sell: "position L < size_of tr"
    by simp
  show ?thesis
  proof (cases "side tr = Some ''buy''")
    case True
    with t buy show ?thesis
      by (simp add: step_buy exec_price_of_def)
  next
    case nb: False
    show ?thesis
    proof (cases "side tr = Some ''sell''")
      case True
      with t sell show ?thesis by (simp add: step_sell)
    next
      case False
      with t nb show ?thesis by (simp add: step_other)
    qed
  qed
qed

lemma run_loop_without_funds:
  assumes "cash L \<le> 0" and "position L \<le> 0" and "- 10000 < slippage_bps"
    and "\<forall>tr \<in> set xs. time tr \<noteq> None \<and> 0 < price_of tr \<and> 0 < size_of tr"
  shows "run_loop latency_ms slippage_bps L xs = Inr L"
  using assms(4)
proof (induction xs)
  case Nil
  show ?case by simp
next
  case (Cons tr xs)
  then have "step latency_ms slippage_bps L tr = Inr L"
    using step_without_funds [OF assms(1-3), of tr latency_ms] by simp
  with Cons show ?case by simp
qed

text \<open>
  C2, as the code has it. \<open>run_backtest\<close> checks neither the starting cash nor the
  latency and has no error for them. With a starting cash of 0 or less it runs as with any
  other: when every intent carries a time, a positive price and a positive size, and the
  slippage is above -10000 basis points, every intent is rejected by the cash or position
  check, and the run returns a report without trades, of profit 0.
\<close>

theorem nonpositive_cash_runs_without_trades:
  assumes "starting_cash \<le> 0" and "- 10000 < slippage_bps" and "data \<noteq> []"
    and "\<forall>tr \<in> set (strategy_fn (sort_values data)).
           time tr \<noteq> None \<and> 0 < price_of tr \<and> 0 < size_of tr"
  shows "run_loop latency_ms slippage_bps (init_ledger starting_cash)
           (strategy_fn (sort_values data)) = Inr (init_ledger starting_cash) \<and>
         run_backtest strategy_fn data latency_ms starting_cash slippage_bps =
           Inr [(''pnl'', Num 0),
                (''final_equity'', Num (py_round starting_cash 2)),
                (''cash'', Num (py_round starting_cash 2)),
                (''position'', Num 0),
                (''total_trades'', Count 0),
                (''win_rate'', Num 0),
                (''trades'', Trades [])]"
proof -
  have L: "run_loop latency_ms slippage_bps (init_ledger starting_cash)
           (strategy_fn (sort_values data)) = Inr (init_ledger starting_cash)"
    using assms(1) by (intro run_loop_without_funds assms(2,4)) (simp_all add: init_ledger_def)
  have ws: "win_trades (trades (init_ledger starting_cash)) = Inr []"
    by (simp add: init_ledger_def)
  from run_backtest_Inr [where strategy_fn = strategy_fn and data = data, OF L assms(3) ws]
  show ?thesis
    using L by (simp add: report_def init_ledger_def py_round_zero)
qed

theorem nonpositive_cash_runs_without_trades_witness:
  "(- 50::real) \<le> 0 \<and> (- 10000::real) < 1 \<and> three_bars \<noteq> [] \<and>
   run_loop (- 5) 1 (init_ledger (- 50))
     ((\<lambda>df. [mk_intent 1 ''buy'' 101 1, mk_intent 2 ''sell'' 99 1]) (sort_values three_bars))
     = Inr (init_ledger (- 50)) \<and>
   run_backtest (\<lambda>df. [mk_intent 1 ''buy'' 101 1, mk_intent 2 ''sell'' 99 1]) three_bars
       (- 5) (- 50) 1
     = Inr [(''pnl'', Num 0), (''final_equity'', Num (py_round (- 50) 2)),
            (''cash'', Num (py_round (- 50) 2)), (''position'', Num 0),
            (''total_trades'', Count 0), (''win_rate'', Num 0), (''trades'', Trades [])]"
proof -
  let ?f = "\<lambda>df::bar list. [mk_intent 1 ''buy'' 101 1, mk_intent 2 ''sell'' 99 1]"
  have h1: "(- 50::real) \<le> 0" and h2: "(- 10000::real) < 1"
    by simp_all
  have h3: "three_bars \<noteq> []"
    by (simp add: three_bars_def)
  have h4: "\<forall>tr \<in> set (?f (sort_values three_bars)).
      time tr \<noteq> None \<and> 0 < price_of tr \<and> 0 < size_of tr"
    by (simp add: mk_intent_def price_of_def size_of_def)
  from nonpositive_cash_runs_without_trades [of "- 50" 1 three_bars ?f "- 5", OF h1 h2 h3 h4]
    h1 h2 h3
  show ?thesis by simp
qed

text \<open>
  The claim as stated fails: a run with a starting cash of -50 and a latency of -5 returns
  a report, not an error. And with a starting cash of 0 a Buy at price 0 is accepted and
  recorded.
\<close>

theorem no_config_error_counterexample:
  "run_backtest (\<lambda>df. [mk_intent 1 ''buy'' 101 1]) three_bars (- 5) (- 50) 1
     = Inr [(''pnl'', Num 0), (''final_equity'', Num (- 50)), (''cash'', Num (- 50)),
            (''position'', Num 0), (''total_trades'', Count 0), (''win_rate'', Num 0),
            (''trades'', Trades [])] \<and>
   run_loop (- 5) 1 (init_ledger 0) [mk_intent 1 ''buy'' 0 1]
     = Inr \<lparr>cash = 0, position = 1, trades = [executed (mk_intent 1 ''buy'' 0 1) (- 4) 0]\<rparr>"
  by (simp add: run_backtest_def sort_values_def example_defs engine_defs py_round_def
      Let_def eval_nat_numeral)

section \<open>The fields of the result\<close>

text \<open>
  C3, as the code has it. The dict a successful run returns has exactly the keys \<open>pnl\<close>,
  \<open>final_equity\<close>, \<open>cash\<close>, \<open>position\<close>, \<open>total_trades\<close>, \<open>win_rate\<close> and
  \<open>trades\<close>. It has no \<open>sharpe_ratio\<close> and no \<open>max_drawdown\<close>: \<open>run_backtest\<close>
  builds no equity curve and does not call \<open>compute_metrics\<close>, which returns these two
  entries when it is called on an equity curve.
\<close>

theorem result_fields:
  assumes "run_backtest strategy_fn data latency_ms starting_cash slippage_bps = Inr r"
  shows "map fst r = [''pnl'', ''final_equity'', ''cash'', ''position'', ''total_trades'',
                      ''win_rate'', ''trades''] \<and>
         map_of r ''sharpe_ratio'' = None \<and> map_of r ''max_drawdown'' = None \<and>
         map fst (compute_metrics equity_curve) = [''sharpe_ratio'', ''max_drawdown'']"
proof -
  from assms obtain L ws where
    "r = report starting_cash (close (last (sort_values data))) L ws"
    by (rule run_backtest_Inr_D)
  then show ?thesis
    by (simp add: report_def compute_metrics_def)
qed

theorem result_fields_witness:
  "run_backtest (\<lambda>df. [mk_intent 1 ''buy'' 101 1]) three_bars 0 1000 0
     = Inr [(''pnl'', Num (- 2)), (''final_equity'', Num 998), (''cash'', Num 899),
            (''position'', Num 1), (''total_trades'', Count 1), (''win_rate'', Num 0),
            (''trades'', Trades [executed (mk_intent 1 ''buy'' 101 1) 1 101])] \<and>
   map fst [(''pnl'', Num (- 2)), (''final_equity'', Num 998), (''cash'', Num 899),
            (''position'', Num 1), (''total_trades'', Count 1), (''win_rate'', Num 0),
            (''trades'', Trades [executed (mk_intent 1 ''buy'' 101 1) 1 101])]
     = [''pnl'', ''final_equity'', ''cash'', ''position'', ''total_trades'',
        ''win_rate'', ''trades''] \<and>
   map fst (compute_metrics [100, 101, 99]) = [''sharpe_ratio'', ''max_drawdown'']"
proof -
  let ?r = "[(''pnl'', Num (- 2)), (''final_equity'', Num 998), (''cash'', Num 899),
            (''position'', Num 1), (''total_trades'', Count 1), (''win_rate'', Num 0),
            (''trades'', Trades [executed (mk_intent 1 ''buy'' 101 1) 1 101])]"
  have run: "run_backtest (\<lambda>df. [mk_intent 1 ''buy'' 101 1]) three_bars 0 1000 0 = Inr ?r"
    by (simp add: run_backtest_def sort_values_def example_defs engine_defs py_round_def
        Let_def eval_nat_numeral)
  from result_fields [OF run, of "[100, 101, 99]"] run
  show ?thesis by simp
qed

text \<open>
  The claim as stated fails: the result of the specification's scenario (a Buy at 101 and
  a Sell at 99 over three bars) holds neither a Sharpe ratio nor a drawdown.
\<close>

theorem no_sharpe_in_result_counterexample:
  "run_backtest (\<lambda>df. [mk_intent 1 ''buy'' 101 1, mk_intent 2 ''sell'' 99 1]) three_bars
       0 1000 0
     = Inr [(''pnl'', Num (- 2)), (''final_equity'', Num 998), (''cash'', Num 998),
            (''position'', Num 0), (''total_trades'', Count 2), (''win_rate'', Num 0),
            (''trades'', Trades [executed (mk_intent 1 ''buy'' 101 1) 1 101,
                                 executed (mk_intent 2 ''sell'' 99 1) 2 99])] \<and>
   map_of [(''pnl'', Num (- 2)), (''final_equity'', Num 998), (''cash'', Num 998),
           (''position'', Num 0), (''total_trades'', Count 2), (''win_rate'', Num 0),
           (''trades'', Trades [executed (mk_intent 1 ''buy'' 101 1) 1 101,
                                executed (mk_intent 2 ''sell'' 99 1) 2 99])]
     ''sharpe_ratio'' = None \<and>
   map_of [(''pnl'', Num (- 2)), (''final_equity'', Num 998), (''cash'', Num 998),
           (''position'', Num 0), (''total_trades'', Count 2), (''win_rate'', Num 0),
           (''trades'', Trades [executed (mk_intent 1 ''buy'' 101 1) 1 101,
                                executed (mk_intent 2 ''sell'' 99 1) 2 99])]
     ''max_drawdown'' = None"
  by (simp add: run_backtest_def sort_values_def example_defs engine_defs py_round_def
      Let_def eval_nat_numeral)

section \<open>Malformed intents\<close>

text \<open>
  C9, as the code has it. Only a missing \<open>time\<close> is fatal: \<open>trade['time']\<close> raises
  KeyError, and the run ends with it whenever some intent of the stream has no time. The
  other fields are read with \<open>trade.get\<close>: the loop treats an intent without a price as
  one of price 0 and an intent without a size as one of size 1 (the same cash, position
  and number of trades result), and it passes over an intent whose side is missing or
  unknown.
\<close>

theorem malformed_intent_handling:
  "(time tr = None \<longrightarrow> step latency_ms slippage_bps L tr = Inl (KeyError ''time'')) \<and>
   ((\<exists>x \<in> set (strategy_fn (sort_values data)). time x = None) \<longrightarrow>
      run_backtest strategy_fn data latency_ms starting_cash slippage_bps
        = Inl (KeyError ''time'')) \<and>
   (price tr = None \<longrightarrow>
      map_sum id (\<lambda>L'. (cash L', position L', length (trades L')))
          (step latency_ms slippage_bps L tr)
        = map_sum id (\<lambda>L'. (cash L', position L', length (trades L')))
            (step latency_ms slippage_bps L (tr\<lparr>price := Some 0\<rparr>))) \<and>
   (size_v tr = None \<longrightarrow>
      map_sum id (\<lambda>L'. (cash L', position L', length (trades L')))
          (step latency_ms slippage_bps L tr)
        = map_sum id (\<lambda>L'. (cash L', position L', length (trades L')))
            (step latency_ms slippage_bps L (tr\<lparr>size_v := Some 1\<rparr>))) \<and>
   (time tr \<noteq> None \<and> side tr \<noteq> Some ''buy'' \<and> side tr \<noteq> Some ''sell'' \<longrightarrow>
      step latency_ms slippage_bps L tr = Inr L)"
proof (intro conjI impI)
  assume "time tr = None"
  then show "step latency_ms slippage_bps L tr = Inl (KeyError ''time'')"
    by (rule step_no_time)
next
  assume "\<exists>x \<in> set (strategy_fn (sort_values data)). time x = None"
  then obtain e where "run_loop latency_ms slippage_bps (init_ledger starting_cash)
      (strategy_fn (sort_values data)) = Inl e"
    using run_loop_raises_iff [of latency_ms slippage_bps "init_ledger starting_cash"
        "strategy_fn (sort_values data)"] by blast
  moreover from this have "e = KeyError ''time''"
    by (rule run_loop_error_is_time)
  ultimately show "run_backtest strategy_fn data latency_ms starting_cash slippage_bps
        = Inl (KeyError ''time'')"
    by (simp add: run_backtest_def)
next
  assume "price tr = None"
  then show "map_sum id (\<lambda>L'. (cash L', position L', length (trades L')))
          (step latency_ms slippage_bps L tr)
        = map_sum id (\<lambda>L'. (cash L', position L', length (trades L')))
            (step latency_ms slippage_bps L (tr\<lparr>price := Some 0\<rparr>))"
    by (simp add: step_def Let_def exec_price_of_def slip_of_def price_of_def size_of_def
        split: option.splits)
next
  assume "size_v tr = None"
  then show "map_sum id (\<lambda>L'. (cash L', position L', length (trades L')))
          (step latency_ms slippage_bps L tr)
        = map_sum id (\<lambda>L'. (cash L', position L', length (trades L')))
            (step latency_ms slippage_bps L (tr\<lparr>size_v := Some 1\<rparr>))"
    by (simp add: step_def Let_def exec_price_of_def slip_of_def price_of_def size_of_def
        split: option.splits)
next
  assume "time tr \<noteq> None \<and> side tr \<noteq> Some ''buy'' \<and> side tr \<noteq> Some ''sell''"
  then show "step latency_ms slippage_bps L tr = Inr L"
    by (auto simp: step_other)
qed

theorem malformed_intent_handling_witness:
  "step 0 1 (init_ledger 1000) \<lparr>time = None, side = Some ''buy'', price = Some 5, size_v = Some 1\<rparr>
     = Inl (KeyError ''time'') \<and>
   run_backtest
       (\<lambda>df. [mk_intent 1 ''buy'' 101 1,
              \<lparr>time = None, side = Some ''buy'', price = Some 5, size_v = Some 1\<rparr>])
       three_bars 0 1000 1
     = Inl (KeyError ''time'') \<and>
   map_sum id (\<lambda>L'. (cash L', position L', length (trades L')))
       (step 0 1 (init_ledger 1000)
          \<lparr>time = Some 1, side = Some ''buy'', price = None, size_v = None\<rparr>)
     = Inr (1000, 1, 1) \<and>
   step 0 1 (init_ledger 1000) \<lparr>time = Some 1, side = Some ''hold'', price = Some 5, size_v = Some 1\<rparr>
     = Inr (init_ledger 1000)"
proof -
  let ?nt = "\<lparr>time = None, side = Some ''buy'', price = Some 5, size_v = Some 1\<rparr>"
  let ?np = "\<lparr>time = Some 1, side = Some ''buy'', price = None, size_v = None\<rparr>"
  let ?ns = "\<lparr>time = Some 1, side = Some ''hold'', price = Some 5, size_v = Some 1\<rparr>"
  let ?f = "\<lambda>df::bar list. [mk_intent 1 ''buy'' 101 1, ?nt]"
  have a: "step 0 1 (init_ledger 1000) ?nt = Inl (KeyError ''time'')"
    using malformed_intent_handling [of ?nt 0 1 "init_ledger 1000" ?f three_bars 1000]
    by simp
  have b: "run_backtest ?f three_bars 0 1000 1 = Inl (KeyError ''time'')"
    using malformed_intent_handling [of ?nt 0 1 "init_ledger 1000" ?f three_bars 1000]
    by simp
  have "map_sum id (\<lambda>L'. (cash L', position L', length (trades L')))
          (step 0 1 (init_ledger 1000) ?np)
      = map_sum id (\<lambda>L'. (cash L', position L', length (trades L')))
          (step 0 1 (init_ledger 1000) (?np\<lparr>price := Some 0\<rparr>))"
    using malformed_intent_handling [of ?np 0 1 "init_ledger 1000" ?f three_bars 1000]
    by simp
  then have c: "map_sum id (\<lambda>L'. (cash L', position L', length (trades L')))
          (step 0 1 (init_ledger 1000) ?np) = Inr (1000, 1, 1)"
    by (simp add: init_ledger_def engine_defs)
  have d: "step 0 1 (init_ledger 1000) ?ns = Inr (init_ledger 1000)"
    using malformed_intent_handling [of ?ns 0 1 "init_ledger 1000" ?f three_bars 1000]
    by simp
  from a b c d show ?thesis by blast
qed

text \<open>
  The claim as stated fails: for a Buy without price and size the engine puts in the
  price 0 and the size 1, executes it and records it, and it passes over an intent of the
  unknown side \<open>'hold'\<close>; the run returns a report and no error reaches the caller.
\<close>

theorem missing_fields_substituted_counterexample:
  "run_backtest
       (\<lambda>df. [\<lparr>time = Some 1, side = Some ''buy'', price = None, size_v = None\<rparr>,
              \<lparr>time = Some 2, side = Some ''hold'', price = Some 5, size_v = Some 1\<rparr>])
       three_bars 0 1000 1
     = Inr [(''pnl'', Num 99), (''final_equity'', Num 1099), (''cash'', Num 1000),
            (''position'', Num 1), (''total_trades'', Count 1), (''win_rate'', Num 0),
            (''trades'', Trades
               [executed \<lparr>time = Some 1, side = Some ''buy'', price = None, size_v = None\<rparr>
                  1 0])]"
  by (simp add: run_backtest_def sort_values_def example_defs engine_defs py_round_def
      Let_def eval_nat_numeral)

section \<open>The Sharpe ratio of short and of flat curves\<close>

lemma fsum_zeros: "fsum (replicate k (Fin 0)) = Fin 0"
proof -
  have "foldl fadd (Fin 0) (replicate k (Fin 0)) = Fin 0"
    by (induction k) simp_all
  then show ?thesis by (simp add: fsum_def)
qed

lemma mean_zeros: "0 < k \<Longrightarrow> mean (replicate k (Fin 0)) = Fin 0"
  by (simp add: mean_def fsum_zeros)

lemma std_zeros: "std (replicate k (Fin 0)) = (if k \<le> 1 then NaN else Fin 0)"
proof (cases "k \<le> 1")
  case True
  then show ?thesis by (simp add: std_def)
next
  case False
  then have k: "0 < k" "1 < k" by simp_all
  have "map (\<lambda>v. let d = fsub (Fin 0) v in fmul d d) (replicate k (Fin 0)) = replicate k (Fin 0)"
    by (simp add: fsub_def)
  with k show ?thesis
    by (simp add: std_def mean_zeros fsum_zeros Let_def)
qed

lemma pct_change_flat:
  assumes "c \<noteq> 0"
  shows "pct_change (replicate (Suc k) c) = NaN # replicate k (Fin 0)"
proof -
  have "zip (replicate (Suc k) c) (replicate k c) = replicate (min (Suc k) k) (c, c)"
    by (rule zip_replicate)
  then have "zip (c # replicate k c) (replicate k c) = replicate k (c, c)"
    by simp
  with assms show ?thesis
    by (simp add: pct_change_def fsub_def)
qed

lemma sharpe_of_short: "length equity_curve < 2 \<Longrightarrow> sharpe_of equity_curve = Fin 0"
proof (cases equity_curve)
  case Nil
  then show ?thesis by (simp add: sharpe_of_def pct_change_def dropna_def)
next
  case (Cons x xs)
  assume "length equity_curve < 2"
  with Cons have "xs = []" by simp
  with Cons show ?thesis by (simp add: sharpe_of_def pct_change_def dropna_def)
qed

lemma sharpe_of_flat:
  assumes "c \<noteq> 0" and "2 \<le> n"
  shows "sharpe_of (replicate n c) = NaN"
proof -
  from assms(2) obtain k where n: "n = Suc (Suc k)"
    by (metis Suc_le_D numeral_2_eq_2 Suc_le_mono)
  have r: "dropna (pct_change (replicate n c)) = replicate (Suc k) (Fin 0)"
    unfolding n pct_change_flat [OF assms(1)] by (simp add: dropna_def del: replicate_Suc)
  have "fdiv (mean (replicate (Suc k) (Fin 0))) (std (replicate (Suc k) (Fin 0))) = NaN"
    by (simp add: mean_zeros std_zeros inf_of_sign_def del: replicate_Suc)
  with r show ?thesis
    by (simp add: sharpe_of_def Let_def del: replicate_Suc)
qed

text \<open>
  C8. On a curve of fewer than two points the Sharpe ratio is 0. On a flat curve of two or
  more points at a value other than 0 it is NaN: every return is 0, their mean and their
  standard deviation are 0 (the deviation is NaN when there is one return only), and the
  code divides the one by the other, since it puts 0 only when there is no return at all.
\<close>

theorem sharpe_flat_curve_is_nan:
  "(length equity_curve < 2 \<longrightarrow>
      map_of (compute_metrics equity_curve) ''sharpe_ratio'' = Some (Fin 0)) \<and>
   (c \<noteq> 0 \<and> 2 \<le> n \<longrightarrow>
      map_of (compute_metrics (replicate n c)) ''sharpe_ratio'' = Some NaN)"
  by (simp add: compute_metrics_def sharpe_of_short sharpe_of_flat py_round_zero)

theorem sharpe_flat_curve_is_nan_witness:
  "compute_metrics [100, 100, 100] = [(''sharpe_ratio'', NaN), (''max_drawdown'', Fin 0)] \<and>
   map_of (compute_metrics [100]) ''sharpe_ratio'' = Some (Fin 0)"
proof -
  have r: "replicate 3 (100::real) = [100, 100, 100]"
    by (simp add: eval_nat_numeral)
  have "map_of (compute_metrics [100, 100, 100]) ''sharpe_ratio'' = Some NaN"
    using sharpe_flat_curve_is_nan [of "[100]" 100 3] by (simp add: r)
  moreover have "map_of (compute_metrics [100]) ''sharpe_ratio'' = Some (Fin 0)"
    using sharpe_flat_curve_is_nan [of "[100]" 100 3] by simp
  moreover have "map_of (compute_metrics [100, 100, 100]) ''max_drawdown'' = Some (Fin 0)"
    by (simp add: compute_metrics_def max_drawdown_of_def cummax_def series_min_def dropna_def
        fsub_def py_round_def)
  ultimately show ?thesis
    by (simp add: compute_metrics_def)
qed

section \<open>A frame that is already in time order\<close>

text \<open>
  When the rows come in ascending time order, sorting leaves them as they are, and the
  last price is the close of the last row of the file.
\<close>

lemma sort_values_sorted:
  "sorted (map timestamp data) \<Longrightarrow> sort_values data = data"
  by (simp add: sort_values_def sort_key_id_if_sorted)

section \<open>Rounding at the reporting boundary\<close>

text \<open>
  A reported value differs from the value the engine computed by at most half a unit of
  its last decimal place: 0.005 for the profit, the equity and the cash.
\<close>

lemma py_round_error: "\<bar>py_round x n - x\<bar> \<le> 1 / (2 * 10 ^ n)"
proof -
  define s where "s = x * 10 ^ n"
  define f where "f = \<lfloor>s\<rfloor>"
  define d where "d = s - of_int f"
  define q :: real where "q = (if d < 1 / 2 then of_int f
          else if 1 / 2 < d then of_int (f + 1)
          else if even f then of_int f
          else of_int (f + 1))"
  have d: "0 \<le> d" "d < 1"
    unfolding d_def f_def by linarith+
  have "\<bar>q - s\<bar> \<le> 1 / 2"
    using d unfolding q_def d_def by (auto simp: abs_if)
  moreover have p: "(0::real) < 10 ^ n" by simp
  moreover have "py_round x n - x = (q - s) / 10 ^ n"
    unfolding py_round_def Let_def q_def d_def f_def s_def
    by (simp add: field_simps)
  ultimately have "\<bar>py_round x n - x\<bar> = \<bar>q - s\<bar> / 10 ^ n"
    by (simp add: abs_divide)
  also have "\<dots> \<le> (1 / 2) / 10 ^ n"
    using \<open>\<bar>q - s\<bar> \<le> 1 / 2\<close> p by (intro divide_right_mono) simp_all
  finally show ?thesis by simp
qed

end
